theory Spec2Isabelle
  imports Main "HOL-Library.Sublist" "HOL-Library.Word"
begin

section \<open>The values the script works on\<close>

text \<open>
  \<^verbatim>\<open>static/script.js\<close> receives \<open>data\<close> from \<open>response.json()\<close>, so \<open>data\<close> is a value
  decoded from JSON. A number is held as the text \<open>Number::toString\<close> gives it: the
  script only converts numbers to strings and tests them for truthiness, and both are
  read off that text (\<open>-0\<close> prints as \<open>0\<close> and is falsy like \<open>0\<close>). An object is the list
  of its own properties; \<open>map_of\<close> looks one up. The value \<open>undefined\<close>, which decoding
  never yields but a property read does, is \<open>None\<close>.
\<close>

datatype json =
    JNull
  | JBool bool
  | JNum string
  | JStr string
  | JArr "json list"
  | JObj "(string \<times> json) list"

type_synonym jsval = "json option"

text \<open>The nine property names the script reads.\<close>

datatype key =
    P_error
  | P_entity_extraction | P_entities | P_relationships
  | P_sentiment_analysis | P_sentiment | P_confidence
  | P_summarization | P_summary

fun key_name :: "key \<Rightarrow> string" where
  "key_name P_error = ''error''"
| "key_name P_entity_extraction = ''entity_extraction''"
| "key_name P_entities = ''entities''"
| "key_name P_relationships = ''relationships''"
| "key_name P_sentiment_analysis = ''sentiment_analysis''"
| "key_name P_sentiment = ''sentiment''"
| "key_name P_confidence = ''confidence''"
| "key_name P_summarization = ''summarization''"
| "key_name P_summary = ''summary''"

section \<open>Exceptions\<close>

text \<open>
  What a promise of the chain can be rejected with: the \<open>TypeError\<close> of reading a
  property of \<open>undefined\<close> or \<open>null\<close>, the \<open>TypeError\<close> of converting an object that has
  no callable \<open>toString\<close> or \<open>valueOf\<close>, and an error object made by \<open>fetch\<close> or by
  \<open>response.json()\<close>, given by its \<open>name\<close> and \<open>message\<close>.
\<close>

datatype nullish = Undefined | Null

datatype js_error =
    TypeError_read nullish key
  | TypeError_convert
  | Rejected string string

text \<open>
  The message of an engine-made \<open>TypeError\<close> is worded by the engine, so it is a
  parameter of the model.
\<close>

record engine =
  read_message :: "nullish \<Rightarrow> key \<Rightarrow> string"
  convert_message :: string

text \<open>\<open>Error.prototype.toString\<close>.\<close>

definition error_prototype_toString :: "string \<Rightarrow> string \<Rightarrow> string" where
  "error_prototype_toString name msg =
     (if name = [] then msg else if msg = [] then name else name @ '': '' @ msg)"

fun error_to_string :: "engine \<Rightarrow> js_error \<Rightarrow> string" where
  "error_to_string eng (TypeError_read b p) =
     error_prototype_toString ''TypeError'' (read_message eng b p)"
| "error_to_string eng TypeError_convert =
     error_prototype_toString ''TypeError'' (convert_message eng)"
| "error_to_string eng (Rejected name msg) = error_prototype_toString name msg"

section \<open>Evaluation with a trace of property reads\<close>

text \<open>
  An expression of the handler either yields a value or throws, and reads properties on
  the way. The reads are recorded in order, by property name.
\<close>

type_synonym 'a eval = "key list \<times> (js_error + 'a)"

definition ev_ret :: "'a \<Rightarrow> 'a eval" where
  "ev_ret x = ([], Inr x)"

definition ev_lift :: "js_error + 'a \<Rightarrow> 'a eval" where
  "ev_lift r = ([], r)"

definition ev_bind :: "'a eval \<Rightarrow> ('a \<Rightarrow> 'b eval) \<Rightarrow> 'b eval" where
  "ev_bind m f =
     (case m of
        (t, Inl e) \<Rightarrow> (t, Inl e)
      | (t, Inr x) \<Rightarrow> (case f x of (t', r) \<Rightarrow> (t @ t', r)))"

text \<open>
  \<open>v.p\<close> for one of the nine names: a \<open>TypeError\<close> on \<open>undefined\<close> and \<open>null\<close>, the own
  property of an object, and \<open>undefined\<close> on an object without it and on a boolean, a
  number, a string or an array (none of the names is an index, \<open>length\<close> or a property
  of a built-in prototype).
\<close>

fun get_prop :: "jsval \<Rightarrow> key \<Rightarrow> jsval eval" where
  "get_prop None p = ([], Inl (TypeError_read Undefined p))"
| "get_prop (Some JNull) p = ([], Inl (TypeError_read Null p))"
| "get_prop (Some (JObj kvs)) p = ([p], Inr (map_of kvs (key_name p)))"
| "get_prop (Some v) p = ([p], Inr None)"

fun read_path :: "jsval \<Rightarrow> key list \<Rightarrow> jsval eval" where
  "read_path v [] = ev_ret v"
| "read_path v (p # ps) = ev_bind (get_prop v p) (\<lambda>w. read_path w ps)"

text \<open>\<open>ToBoolean\<close>.\<close>

fun to_boolean :: "jsval \<Rightarrow> bool" where
  "to_boolean None = False"
| "to_boolean (Some JNull) = False"
| "to_boolean (Some (JBool b)) = b"
| "to_boolean (Some (JNum s)) = (s \<noteq> ''0'' \<and> s \<noteq> ''NaN'')"
| "to_boolean (Some (JStr s)) = (s \<noteq> [])"
| "to_boolean (Some (JArr xs)) = True"
| "to_boolean (Some (JObj kvs)) = True"

text \<open>
  \<open>ToString\<close>, which a template literal applies to each \<open>${...}\<close>. An array is joined
  with commas, \<open>null\<close> elements printing as nothing. A decoded object prints as
  \<open>[object Object]\<close> through \<open>Object.prototype.toString\<close>, unless it has an own
  property \<open>toString\<close>: that one is data, not callable, \<open>valueOf\<close> gives no primitive
  either, and the conversion throws.
\<close>

fun join_comma :: "(js_error + string) list \<Rightarrow> js_error + string" where
  "join_comma [] = Inr []"
| "join_comma [r] = r"
| "join_comma (r # rs) =
     (case r of
        Inl e \<Rightarrow> Inl e
      | Inr s \<Rightarrow> (case join_comma rs of Inl e \<Rightarrow> Inl e | Inr t \<Rightarrow> Inr (s @ '','' @ t)))"

fun element_string :: "json \<Rightarrow> js_error + string \<Rightarrow> js_error + string" where
  "element_string JNull r = Inr []"
| "element_string v r = r"

primrec json_to_string :: "json \<Rightarrow> js_error + string" where
  "json_to_string JNull = Inr ''null''"
| "json_to_string (JBool b) = Inr (if b then ''true'' else ''false'')"
| "json_to_string (JNum s) = Inr s"
| "json_to_string (JStr s) = Inr s"
| "json_to_string (JArr xs) = join_comma (map2 element_string xs (map json_to_string xs))"
| "json_to_string (JObj kvs) =
     (if map_of kvs ''toString'' = None then Inr ''[object Object]''
      else Inl TypeError_convert)"

fun to_string :: "jsval \<Rightarrow> js_error + string" where
  "to_string None = Inr ''undefined''"
| "to_string (Some v) = json_to_string v"

text \<open>The text a hole \<open>${v.p1.p2}\<close> of a template literal contributes.\<close>

definition hole :: "jsval \<Rightarrow> key list \<Rightarrow> string eval" where
  "hole v ps = ev_bind (read_path v ps) (\<lambda>w. ev_lift (to_string w))"

section \<open>The handlers of the promise chain\<close>

text \<open>
  The \<open>then(data => ...)\<close> handler, lines 13 to 28: the string it builds in \<open>results\<close>
  and assigns to the panel, or the exception it throws before the assignment.
\<close>

definition error_branch :: "string \<Rightarrow> json \<Rightarrow> string eval" where
  "error_branch results data =
     ev_bind (hole (Some data) [P_error]) (\<lambda>s.
     ev_ret (results @ ''<p>'' @ s @ ''</p>''))"

definition success_branch :: "string \<Rightarrow> json \<Rightarrow> string eval" where
  "success_branch results0 data =
     (let results = results0 @ ''<h4>Entity Extraction:</h4>'' in
      ev_bind (hole (Some data) [P_entity_extraction, P_entities]) (\<lambda>s.
      let results = results @ ''<p>Entities: '' @ s @ ''</p>'' in
      ev_bind (hole (Some data) [P_entity_extraction, P_relationships]) (\<lambda>s.
      let results = results @ ''<p>Relationships: '' @ s @ ''</p>'';
          results = results @ ''<h4>Sentiment Analysis:</h4>'' in
      ev_bind (hole (Some data) [P_sentiment_analysis, P_sentiment]) (\<lambda>s.
      let results = results @ ''<p>Sentiment: '' @ s @ ''</p>'' in
      ev_bind (hole (Some data) [P_sentiment_analysis, P_confidence]) (\<lambda>s.
      let results = results @ ''<p>Confidence: '' @ s @ ''</p>'';
          results = results @ ''<h4>Summarization:</h4>'' in
      ev_bind (hole (Some data) [P_summarization, P_summary]) (\<lambda>s.
      ev_ret (results @ ''<p>Summary: '' @ s @ ''</p>'')))))))"

definition then_data :: "json \<Rightarrow> string eval" where
  "then_data data =
     (let results = ''<h3>Analysis Results:</h3>'' in
      ev_bind (get_prop (Some data) P_error) (\<lambda>c.
        if to_boolean c then error_branch results data
        else success_branch results data))"

text \<open>The \<open>catch(error => ...)\<close> handler, lines 29 to 31.\<close>

definition catch_error :: "engine \<Rightarrow> js_error \<Rightarrow> string" where
  "catch_error eng error = ''<p>Error: '' @ error_to_string eng error @ ''</p>''"

text \<open>
  How a request ends: \<open>fetch\<close> rejects, \<open>response.json()\<close> rejects, or the body
  decodes to a value. \<open>fetch\<close> resolves for every HTTP status, so the status plays no
  part.
\<close>

datatype outcome =
    Fetch_rejected js_error
  | Json_rejected js_error
  | Decoded json

text \<open>
  The whole chain: a rejection anywhere, the handler's own exception included, runs
  the \<open>catch\<close> handler. Either way exactly one string is assigned to the \<open>innerHTML\<close>
  of the results element.
\<close>

fun settle :: "engine \<Rightarrow> outcome \<Rightarrow> string" where
  "settle eng (Fetch_rejected e) = catch_error eng e"
| "settle eng (Json_rejected e) = catch_error eng e"
| "settle eng (Decoded data) =
     (case snd (then_data data) of
        Inr results \<Rightarrow> results
      | Inl e \<Rightarrow> catch_error eng e)"

section \<open>The request\<close>

text \<open>
  The text of the input field and the body of the request are JavaScript strings:
  sequences of 16-bit code units, in which a surrogate may stand alone. \<open>ascii\<close> writes
  out a literal.
\<close>

type_synonym code_unit = "16 word"

type_synonym jsstring = "code_unit list"

definition ascii :: "string \<Rightarrow> jsstring" where
  "ascii s = map (\<lambda>c. of_nat (of_char c)) s"

text \<open>
  \<open>QuoteJSONString\<close> goes through the code points of the string, a leading surrogate
  followed by a trailing one being one code point. It escapes the double quote and the
  backslash, writes the control characters as \<open>\b \t \n \f \r\<close> or as \<open>\u\<close> and four
  lower-case hex digits, writes a surrogate that stands alone in the same way, and
  copies everything else.
\<close>

definition is_leading_surrogate :: "code_unit \<Rightarrow> bool" where
  "is_leading_surrogate u = (0xD800 \<le> u \<and> u \<le> 0xDBFF)"

definition is_trailing_surrogate :: "code_unit \<Rightarrow> bool" where
  "is_trailing_surrogate u = (0xDC00 \<le> u \<and> u \<le> 0xDFFF)"

definition hex_digit :: "nat \<Rightarrow> code_unit" where
  "hex_digit n = (if n < 10 then of_nat (48 + n) else of_nat (87 + n))"

definition unicode_escape :: "code_unit \<Rightarrow> jsstring" where
  "unicode_escape u =
     [0x5C, 0x75,
      hex_digit (unat u div 4096 mod 16), hex_digit (unat u div 256 mod 16),
      hex_digit (unat u div 16 mod 16), hex_digit (unat u mod 16)]"

definition quote_unit :: "code_unit \<Rightarrow> jsstring" where
  "quote_unit u =
     (if u = 0x08 then [0x5C, 0x62]
      else if u = 0x09 then [0x5C, 0x74]
      else if u = 0x0A then [0x5C, 0x6E]
      else if u = 0x0C then [0x5C, 0x66]
      else if u = 0x0D then [0x5C, 0x72]
      else if u = 0x22 then [0x5C, 0x22]
      else if u = 0x5C then [0x5C, 0x5C]
      else if u < 0x20 \<or> is_leading_surrogate u \<or> is_trailing_surrogate u
        then unicode_escape u
      else [u])"

fun quote_code_points :: "jsstring \<Rightarrow> jsstring" where
  "quote_code_points (u # v # us) =
     (if is_leading_surrogate u \<and> is_trailing_surrogate v
      then u # v # quote_code_points us
      else quote_unit u @ quote_code_points (v # us))"
| "quote_code_points [u] = quote_unit u"
| "quote_code_points [] = []"

definition json_quote :: "jsstring \<Rightarrow> jsstring" where
  "json_quote s = [0x22] @ quote_code_points s @ [0x22]"

text \<open>
  \<open>JSON.stringify\<close> of an object whose own properties hold strings, written in the
  order of the list, without white space.
\<close>

fun join :: "'a list \<Rightarrow> 'a list list \<Rightarrow> 'a list" where
  "join sep [] = []"
| "join sep [s] = s"
| "join sep (s # ss) = s @ sep @ join sep ss"

definition member_string :: "jsstring \<times> jsstring \<Rightarrow> jsstring" where
  "member_string kv = json_quote (fst kv) @ ascii '':'' @ json_quote (snd kv)"

definition json_stringify :: "(jsstring \<times> jsstring) list \<Rightarrow> jsstring" where
  "json_stringify kvs = ascii ''{'' @ join (ascii '','') (map member_string kvs) @ ascii ''}''"

record request =
  req_method :: string
  req_url :: string
  req_headers :: "(string \<times> string) list"
  req_body :: jsstring

text \<open>The call of \<open>fetch\<close>, lines 5 to 11, for the text read from the input field.\<close>

definition fetch_analyze :: "jsstring \<Rightarrow> request" where
  "fetch_analyze documentInput =
     \<lparr> req_method = ''POST'',
       req_url = ''/analyze'',
       req_headers = [(''Content-Type'', ''application/json'')],
       req_body = json_stringify [(ascii ''document'', documentInput)] \<rparr>"

section \<open>The page and its events\<close>

text \<open>
  The page holds the value of the \<open>document\<close> field and the \<open>innerHTML\<close> of the
  \<open>results\<close> element (both elements are in \<^verbatim>\<open>templates/index.html\<close>), and, for the
  network, the requests sent so far and the numbers of those still in flight. The
  script runs on one event loop: the user edits the field, clicks the button, or a
  request in flight settles, one event after the other.
\<close>

record page =
  document_value :: jsstring
  results_html :: string
  sent :: "request list"
  in_flight :: "nat list"

datatype event =
    Edit jsstring
  | Click
  | Settle nat outcome

fun step :: "engine \<Rightarrow> page \<Rightarrow> event \<Rightarrow> page" where
  "step eng pg (Edit t) = pg\<lparr>document_value := t\<rparr>"
| "step eng pg Click =
     (let documentInput = document_value pg in
      pg\<lparr>sent := sent pg @ [fetch_analyze documentInput],
         in_flight := in_flight pg @ [length (sent pg)]\<rparr>)"
| "step eng pg (Settle k out) =
     (if k \<in> set (in_flight pg) then
        pg\<lparr>results_html := settle eng out, in_flight := removeAll k (in_flight pg)\<rparr>
      else pg)"

fun run :: "engine \<Rightarrow> page \<Rightarrow> event list \<Rightarrow> page" where
  "run eng pg [] = pg"
| "run eng pg (ev # evs) = run eng (step eng pg ev) evs"

text \<open>The wording of one engine (V8), for evaluating the model on concrete inputs.\<close>

definition v8 :: engine where
  "v8 = \<lparr> read_message = (\<lambda>b p.
            ''Cannot read properties of ''
            @ (case b of Undefined \<Rightarrow> ''undefined'' | Null \<Rightarrow> ''null'')
            @ '' (reading '' @ [CHR 0x27] @ key_name p @ [CHR 0x27] @ '')''),
          convert_message = ''Cannot convert object to primitive value'' \<rparr>"

section \<open>Notions used to state the properties\<close>

text \<open>
  \<open>in_order ns h\<close>: the strings \<open>ns\<close> occur in \<open>h\<close> one after the other, without
  overlap.
\<close>

fun in_order :: "string list \<Rightarrow> string \<Rightarrow> bool" where
  "in_order [] h = True"
| "in_order (n # ns) h =
     (\<exists>k \<in> {0..length h}. prefix n (drop k h) \<and> in_order ns (drop (k + length n) h))"

declare in_order.simps [simp del]

text \<open>The labels the success branch puts before the five values.\<close>

definition field_labels :: "string list" where
  "field_labels = [''Entities'', ''Relationships'', ''Sentiment'', ''Confidence'', ''Summary'']"

text \<open>The response of the specification's example.\<close>

definition apple :: "(string \<times> json) list" where
  "apple =
     [(''entity_extraction'',
         JObj [(''entities'', JStr ''Apple''), (''relationships'', JStr ''none'')]),
      (''sentiment_analysis'',
         JObj [(''sentiment'', JStr ''positive''), (''confidence'', JStr ''0.92'')]),
      (''summarization'', JObj [(''summary'', JStr ''Apple profits rose.'')])]"

text \<open>Responses with leaves missing, and with a section missing.\<close>

definition partial_response :: "(string \<times> json) list" where
  "partial_response =
     [(''entity_extraction'', JObj [(''relationships'', JStr ''none'')]),
      (''sentiment_analysis'', JObj [(''sentiment'', JStr ''positive'')]),
      (''summarization'', JObj [])]"

definition no_summarization :: "(string \<times> json) list" where
  "no_summarization =
     [(''entity_extraction'',
         JObj [(''entities'', JStr ''Apple''), (''relationships'', JStr ''none'')]),
      (''sentiment_analysis'',
         JObj [(''sentiment'', JStr ''positive''), (''confidence'', JNum ''0.92'')])]"

text \<open>The page as it is loaded, and the rejection of \<open>fetch\<close> on a network error.\<close>

definition page0 :: page where
  "page0 = \<lparr> document_value = [], results_html = [], sent = [], in_flight = [] \<rparr>"

definition failed_to_fetch :: js_error where
  "failed_to_fetch = Rejected ''TypeError'' ''Failed to fetch''"

text \<open>
  A reader for JSON text, to say what a body means: \<open>read_string\<close> reads a string
  literal as the JSON grammar has it (any code unit from \<open>0x20\<close> on except the double
  quote and the backslash; the escapes \<open>\" \\ \/ \b \f \n \r \t\<close>; \<open>\u\<close> and four hex
  digits of either case) and returns the string it denotes with the text that follows;
  \<open>read_member_object\<close> reads an object of one member whose value is a string and
  returns the name and the value.
\<close>

definition hex_value :: "code_unit \<Rightarrow> nat option" where
  "hex_value c =
     (let k = unat c in
      if 48 \<le> k \<and> k \<le> 57 then Some (k - 48)
      else if 97 \<le> k \<and> k \<le> 102 then Some (k - 87)
      else if 65 \<le> k \<and> k \<le> 70 then Some (k - 55)
      else None)"

definition simple_escape :: "code_unit \<Rightarrow> code_unit option" where
  "simple_escape e =
     (if e = 0x22 then Some 0x22
      else if e = 0x5C then Some 0x5C
      else if e = 0x2F then Some 0x2F
      else if e = 0x62 then Some 0x08
      else if e = 0x66 then Some 0x0C
      else if e = 0x6E then Some 0x0A
      else if e = 0x72 then Some 0x0D
      else if e = 0x74 then Some 0x09
      else None)"

definition cons_result :: "code_unit \<Rightarrow> (jsstring \<times> jsstring) option \<Rightarrow> (jsstring \<times> jsstring) option" where
  "cons_result u r = (case r of None \<Rightarrow> None | Some (s, rest) \<Rightarrow> Some (u # s, rest))"

fun read_chars :: "jsstring \<Rightarrow> (jsstring \<times> jsstring) option" where
  "read_chars [] = None"
| "read_chars (u # us) =
     (if u = 0x22 then Some ([], us)
      else if u = 0x5C then
        (case us of
           [] \<Rightarrow> None
         | e # r \<Rightarrow>
             if e = 0x75 then
               (case r of
                  a # b # c # d # r' \<Rightarrow>
                    (case (hex_value a, hex_value b, hex_value c, hex_value d) of
                       (Some x3, Some x2, Some x1, Some x0) \<Rightarrow>
                         cons_result (of_nat (x3 * 4096 + x2 * 256 + x1 * 16 + x0)) (read_chars r')
                     | _ \<Rightarrow> None)
                | _ \<Rightarrow> None)
             else
               (case simple_escape e of
                  None \<Rightarrow> None
                | Some w \<Rightarrow> cons_result w (read_chars r)))
      else if u < 0x20 then None
      else cons_result u (read_chars us))"

definition read_string :: "jsstring \<Rightarrow> (jsstring \<times> jsstring) option" where
  "read_string s = (case s of [] \<Rightarrow> None | q # r \<Rightarrow> if q = 0x22 then read_chars r else None)"

definition read_member_object :: "jsstring \<Rightarrow> (jsstring \<times> jsstring) option" where
  "read_member_object s =
     (case s of
        [] \<Rightarrow> None
      | b # s1 \<Rightarrow>
          if b \<noteq> 0x7B then None
          else (case read_string s1 of
                  None \<Rightarrow> None
                | Some (k, s2) \<Rightarrow>
                    (case s2 of
                       [] \<Rightarrow> None
                     | c # s3 \<Rightarrow>
                         if c \<noteq> 0x3A then None
                         else (case read_string s3 of
                                 None \<Rightarrow> None
                               | Some (v, s4) \<Rightarrow> if s4 = [0x7D] then Some (k, v) else None))))"

section \<open>Evaluating the handler\<close>

lemma hole_section_leaf:
  "map_of kvs (key_name a) = Some (JObj sec) \<Longrightarrow>
   hole (Some (JObj kvs)) [a, b] = ([a, b], to_string (map_of sec (key_name b)))"
  by (simp add: hole_def ev_bind_def ev_ret_def ev_lift_def split: sum.splits)

lemma hole_section_missing:
  "map_of kvs (key_name a) = None \<Longrightarrow>
   hole (Some (JObj kvs)) [a, b] = ([a], Inl (TypeError_read Undefined b))"
  by (simp add: hole_def ev_bind_def ev_ret_def ev_lift_def)

lemma hole_error:
  "hole (Some (JObj kvs)) [P_error] = ([P_error], to_string (map_of kvs ''error''))"
  by (simp add: hole_def ev_bind_def ev_ret_def ev_lift_def split: sum.splits)

lemma success_branch_ok:
  assumes "hole (Some d) [P_entity_extraction, P_entities] = (t1, Inr s1)"
    and "hole (Some d) [P_entity_extraction, P_relationships] = (t2, Inr s2)"
    and "hole (Some d) [P_sentiment_analysis, P_sentiment] = (t3, Inr s3)"
    and "hole (Some d) [P_sentiment_analysis, P_confidence] = (t4, Inr s4)"
    and "hole (Some d) [P_summarization, P_summary] = (t5, Inr s5)"
  shows "success_branch r d =
     (t1 @ t2 @ t3 @ t4 @ t5,
      Inr (r @ ''<h4>Entity Extraction:</h4>''
           @ ''<p>Entities: '' @ s1 @ ''</p>''
           @ ''<p>Relationships: '' @ s2 @ ''</p>''
           @ ''<h4>Sentiment Analysis:</h4>''
           @ ''<p>Sentiment: '' @ s3 @ ''</p>''
           @ ''<p>Confidence: '' @ s4 @ ''</p>''
           @ ''<h4>Summarization:</h4>''
           @ ''<p>Summary: '' @ s5 @ ''</p>''))"
  by (simp add: success_branch_def ev_bind_def ev_ret_def assms Let_def)

lemma success_branch_cases:
  "snd (success_branch r d) =
     (case snd (hole (Some d) [P_entity_extraction, P_entities]) of Inl e \<Rightarrow> Inl e | Inr s1 \<Rightarrow>
      case snd (hole (Some d) [P_entity_extraction, P_relationships]) of Inl e \<Rightarrow> Inl e | Inr s2 \<Rightarrow>
      case snd (hole (Some d) [P_sentiment_analysis, P_sentiment]) of Inl e \<Rightarrow> Inl e | Inr s3 \<Rightarrow>
      case snd (hole (Some d) [P_sentiment_analysis, P_confidence]) of Inl e \<Rightarrow> Inl e | Inr s4 \<Rightarrow>
      case snd (hole (Some d) [P_summarization, P_summary]) of Inl e \<Rightarrow> Inl e | Inr s5 \<Rightarrow>
        Inr (r @ ''<h4>Entity Extraction:</h4>''
           @ ''<p>Entities: '' @ s1 @ ''</p>''
           @ ''<p>Relationships: '' @ s2 @ ''</p>''
           @ ''<h4>Sentiment Analysis:</h4>''
           @ ''<p>Sentiment: '' @ s3 @ ''</p>''
           @ ''<p>Confidence: '' @ s4 @ ''</p>''
           @ ''<h4>Summarization:</h4>''
           @ ''<p>Summary: '' @ s5 @ ''</p>''))"
  by (simp add: success_branch_def ev_bind_def ev_ret_def Let_def split: prod.splits sum.splits)


lemma then_data_falsy:
  "\<not> to_boolean (map_of kvs ''error'') \<Longrightarrow>
   then_data (JObj kvs) =
     (P_error # fst (success_branch ''<h3>Analysis Results:</h3>'' (JObj kvs)),
      snd (success_branch ''<h3>Analysis Results:</h3>'' (JObj kvs)))"
  by (simp add: then_data_def ev_bind_def split: prod.splits)

lemma then_data_truthy:
  "to_boolean (map_of kvs ''error'') \<Longrightarrow>
   then_data (JObj kvs) =
     ([P_error, P_error],
      case to_string (map_of kvs ''error'') of
        Inl e \<Rightarrow> Inl e
      | Inr s \<Rightarrow> Inr (''<h3>Analysis Results:</h3><p>'' @ s @ ''</p>''))"
  by (simp add: then_data_def error_branch_def hole_error ev_bind_def ev_ret_def split: sum.splits)

text \<open>The fragment of a response whose three sections are objects.\<close>

lemma sections_fragment:
  assumes falsy: "\<not> to_boolean (map_of kvs ''error'')"
    and ee: "map_of kvs ''entity_extraction'' = Some (JObj ee)"
    and sa: "map_of kvs ''sentiment_analysis'' = Some (JObj sa)"
    and sm: "map_of kvs ''summarization'' = Some (JObj sm)"
    and s1: "to_string (map_of ee ''entities'') = Inr s1"
    and s2: "to_string (map_of ee ''relationships'') = Inr s2"
    and s3: "to_string (map_of sa ''sentiment'') = Inr s3"
    and s4: "to_string (map_of sa ''confidence'') = Inr s4"
    and s5: "to_string (map_of sm ''summary'') = Inr s5"
  shows "settle eng (Decoded (JObj kvs)) =
      ''<h3>Analysis Results:</h3>''
      @ ''<h4>Entity Extraction:</h4>''
      @ ''<p>Entities: '' @ s1 @ ''</p>''
      @ ''<p>Relationships: '' @ s2 @ ''</p>''
      @ ''<h4>Sentiment Analysis:</h4>''
      @ ''<p>Sentiment: '' @ s3 @ ''</p>''
      @ ''<p>Confidence: '' @ s4 @ ''</p>''
      @ ''<h4>Summarization:</h4>''
      @ ''<p>Summary: '' @ s5 @ ''</p>''"
proof -
  have h1: "hole (Some (JObj kvs)) [P_entity_extraction, P_entities]
              = ([P_entity_extraction, P_entities], Inr s1)"
    using ee s1 by (simp add: hole_section_leaf)
  have h2: "hole (Some (JObj kvs)) [P_entity_extraction, P_relationships]
              = ([P_entity_extraction, P_relationships], Inr s2)"
    using ee s2 by (simp add: hole_section_leaf)
  have h3: "hole (Some (JObj kvs)) [P_sentiment_analysis, P_sentiment]
              = ([P_sentiment_analysis, P_sentiment], Inr s3)"
    using sa s3 by (simp add: hole_section_leaf)
  have h4: "hole (Some (JObj kvs)) [P_sentiment_analysis, P_confidence]
              = ([P_sentiment_analysis, P_confidence], Inr s4)"
    using sa s4 by (simp add: hole_section_leaf)
  have h5: "hole (Some (JObj kvs)) [P_summarization, P_summary]
              = ([P_summarization, P_summary], Inr s5)"
    using sm s5 by (simp add: hole_section_leaf)
  show ?thesis
    by (simp add: then_data_falsy [OF falsy] success_branch_ok [OF h1 h2 h3 h4 h5])
qed

section \<open>Substrings\<close>

lemma in_order_Nil: "in_order [] h"
  by (simp add: in_order.simps)

lemma in_order_step: "in_order ns h \<Longrightarrow> in_order (n # ns) (a @ n @ h)"
  by (auto simp: in_order.simps intro!: bexI [where x = "length a"])

lemma in_order_step2: "in_order ns h \<Longrightarrow> in_order (n # ns) (a @ b @ n @ h)"
  using in_order_step [of ns h n "a @ b"] by simp

lemma fragment_in_order:
  "in_order [''<h4>Entity Extraction:</h4>'', s1, s2, ''<h4>Sentiment Analysis:</h4>'',
             s3, s4, ''<h4>Summarization:</h4>'', s5]
     (''<h3>Analysis Results:</h3>''
      @ ''<h4>Entity Extraction:</h4>''
      @ ''<p>Entities: '' @ s1 @ ''</p>''
      @ ''<p>Relationships: '' @ s2 @ ''</p>''
      @ ''<h4>Sentiment Analysis:</h4>''
      @ ''<p>Sentiment: '' @ s3 @ ''</p>''
      @ ''<p>Confidence: '' @ s4 @ ''</p>''
      @ ''<h4>Summarization:</h4>''
      @ ''<p>Summary: '' @ s5 @ ''</p>'')"
  by (intro in_order_step in_order_step2 in_order_Nil)

lemma suffix_last: "suffix xs ys \<Longrightarrow> xs \<noteq> [] \<Longrightarrow> last xs = last ys"
  by (auto simp: suffix_def)

lemma prefix_hd: "prefix xs ys \<Longrightarrow> xs \<noteq> [] \<Longrightarrow> hd xs = hd ys"
  by (auto simp: prefix_def)

lemma sublist_between:
  assumes sub: "sublist l (p @ e @ s)"
    and lastp: "last p \<notin> set l" and hds: "hd s \<notin> set l"
    and notp: "\<not> sublist l p" and nots: "\<not> sublist l s"
  shows "sublist l e"
proof -
  have no_left: "\<not> (suffix x1 p \<and> x1 \<noteq> [] \<and> l = x1 @ x2)" for x1 x2
  proof
    assume a: "suffix x1 p \<and> x1 \<noteq> [] \<and> l = x1 @ x2"
    then have "last x1 = last p" by (simp add: suffix_last)
    moreover from a have "last x1 \<in> set l" by simp
    ultimately show False using lastp by simp
  qed
  have no_right: "\<not> (prefix y2 s \<and> y2 \<noteq> [] \<and> l = y1 @ y2)" for y1 y2
  proof
    assume a: "prefix y2 s \<and> y2 \<noteq> [] \<and> l = y1 @ y2"
    then have "hd y2 = hd s" by (simp add: prefix_hd)
    moreover from a have "hd y2 \<in> set l" by simp
    ultimately show False using hds by simp
  qed
  from sub have "sublist l p \<or> sublist l (e @ s) \<or>
      (\<exists>x1 x2. l = x1 @ x2 \<and> suffix x1 p \<and> prefix x2 (e @ s))"
    by (rule sublist_append [THEN iffD1])
  then have "sublist l (e @ s)"
  proof (elim disjE exE conjE)
    fix x1 x2
    assume l: "l = x1 @ x2" and suf: "suffix x1 p" and pre: "prefix x2 (e @ s)"
    show ?thesis
    proof (cases "x1 = []")
      case True
      with l pre show ?thesis by simp
    next
      case False
      with no_left [of x1 x2] suf l show ?thesis by simp
    qed
  qed (simp_all add: notp)
  then have "sublist l e \<or> sublist l s \<or>
      (\<exists>y1 y2. l = y1 @ y2 \<and> suffix y1 e \<and> prefix y2 s)"
    by (rule sublist_append [THEN iffD1])
  then show ?thesis
  proof (elim disjE exE conjE)
    fix y1 y2
    assume l: "l = y1 @ y2" and suf: "suffix y1 e" and pre: "prefix y2 s"
    show ?thesis
    proof (cases "y2 = []")
      case True
      with l suf show ?thesis by simp
    next
      case False
      with no_right [of y2 y1] pre l show ?thesis by simp
    qed
  qed (simp_all add: nots)
qed

lemma label_facts:
  "\<forall>l \<in> set field_labels.
     last ''<h3>Analysis Results:</h3><p>'' \<notin> set l \<and> hd ''</p>'' \<notin> set l
     \<and> \<not> sublist l ''<h3>Analysis Results:</h3><p>'' \<and> \<not> sublist l ''</p>''"
  unfolding field_labels_def by (simp add: sublist_Cons_right)

lemma label_only_from_error:
  assumes l: "l \<in> set field_labels"
    and sub: "sublist l (''<h3>Analysis Results:</h3><p>'' @ e @ ''</p>'')"
  shows "sublist l e"
proof -
  from label_facts l
  have "last ''<h3>Analysis Results:</h3><p>'' \<notin> set l" and "hd ''</p>'' \<notin> set l"
    and "\<not> sublist l ''<h3>Analysis Results:</h3><p>''" and "\<not> sublist l ''</p>''"
    by blast+
  with sub show ?thesis by (rule sublist_between)
qed

section \<open>Runs of events\<close>

lemma run_append: "run eng pg (xs @ ys) = run eng (run eng pg xs) ys"
  by (induction xs arbitrary: pg) simp_all

section \<open>Reading back what \<open>JSON.stringify\<close> wrote\<close>

lemma nibbles_linear:
  "n = q1 * 16 + r0 \<Longrightarrow> q1 = q2 * 16 + r1 \<Longrightarrow> q2 = q3 * 16 + r2 \<Longrightarrow>
   q3 * 4096 + r2 * 256 + r1 * 16 + r0 = (n::nat)"
  by simp

lemma nibbles:
  assumes "n < 65536"
  shows "(n div 4096 mod 16) * 4096 + (n div 256 mod 16) * 256 + (n div 16 mod 16) * 16 + n mod 16
         = (n::nat)"
proof -
  have d1: "n div 16 div 16 = n div 256" and d2: "n div 256 div 16 = n div 4096"
    by (simp_all add: div_mult2_eq)
  have "n div 4096 < 16"
    using assms by (simp add: less_mult_imp_div_less)
  then have top: "n div 4096 mod 16 = n div 4096"
    by simp
  have e0: "n = n div 16 * 16 + n mod 16"
    by simp
  have e1: "n div 16 = n div 256 * 16 + n div 16 mod 16"
    using div_mult_mod_eq [of "n div 16" 16] d1 by simp
  have e2: "n div 256 = n div 4096 * 16 + n div 256 mod 16"
    using div_mult_mod_eq [of "n div 256" 16] d2 by simp
  show ?thesis
    unfolding top by (rule nibbles_linear [OF e0 e1 e2])
qed

lemma unat_small: "m < 65536 \<Longrightarrow> unat (of_nat m :: code_unit) = m"
  by (simp add: unat_of_nat)

lemma unat_hex_digit: "n < 16 \<Longrightarrow> unat (hex_digit n) = (if n < 10 then 48 + n else 87 + n)"
proof (cases "n < 10")
  case True
  then have "unat (of_nat (48 + n) :: code_unit) = 48 + n"
    by (intro unat_small) simp
  with True show ?thesis by (simp only: hex_digit_def if_True)
next
  case False
  assume "n < 16"
  then have "unat (of_nat (87 + n) :: code_unit) = 87 + n"
    by (intro unat_small) simp
  with False show ?thesis by (simp only: hex_digit_def if_False)
qed

lemma hex_value_digit: "n < 16 \<Longrightarrow> hex_value (hex_digit n) = Some n"
  unfolding hex_value_def Let_def by (simp only: unat_hex_digit) simp


lemma read_chars_escape:
  "hex_value a = Some x3 \<Longrightarrow> hex_value b = Some x2 \<Longrightarrow> hex_value c = Some x1 \<Longrightarrow>
   hex_value d = Some x0 \<Longrightarrow>
   read_chars (0x5C # 0x75 # a # b # c # d # xs)
     = cons_result (of_nat (x3 * 4096 + x2 * 256 + x1 * 16 + x0)) (read_chars xs)"
  by simp

lemma read_unicode_escape:
  "read_chars (unicode_escape u @ xs) = cons_result u (read_chars xs)"
proof -
  have "unat u < 65536"
    using unsigned_less [of u, where 'a = nat] by simp
  then have "of_nat ((unat u div 4096 mod 16) * 4096 + (unat u div 256 mod 16) * 256
      + (unat u div 16 mod 16) * 16 + unat u mod 16) = u"
    by (simp only: nibbles) simp
  then show ?thesis
    unfolding unicode_escape_def
    by (simp only: append_Cons append_Nil
          read_chars_escape [OF hex_value_digit hex_value_digit hex_value_digit hex_value_digit]
          mod_less_divisor zero_less_numeral)
qed

lemma read_verbatim:
  "u \<noteq> 0x22 \<Longrightarrow> u \<noteq> 0x5C \<Longrightarrow> \<not> u < 0x20 \<Longrightarrow>
   read_chars (u # xs) = cons_result u (read_chars xs)"
  by simp

lemma surrogate_verbatim:
  assumes "is_leading_surrogate u \<or> is_trailing_surrogate u"
  shows "u \<noteq> 0x22" and "u \<noteq> 0x5C" and "\<not> u < 0x20"
  using assms unfolding is_leading_surrogate_def is_trailing_surrogate_def
  by (auto simp: word_le_nat_alt word_less_nat_alt)

lemma read_simple_escape:
  "simple_escape e = Some w \<Longrightarrow> e \<noteq> 0x75 \<Longrightarrow>
   read_chars (0x5C # e # xs) = cons_result w (read_chars xs)"
  by simp

lemma read_quote_unit:
  "read_chars (quote_unit u @ xs) = cons_result u (read_chars xs)"
proof -
  have esc: "read_chars (0x5C # 0x62 # xs) = cons_result 0x08 (read_chars xs)"
    "read_chars (0x5C # 0x74 # xs) = cons_result 0x09 (read_chars xs)"
    "read_chars (0x5C # 0x6E # xs) = cons_result 0x0A (read_chars xs)"
    "read_chars (0x5C # 0x66 # xs) = cons_result 0x0C (read_chars xs)"
    "read_chars (0x5C # 0x72 # xs) = cons_result 0x0D (read_chars xs)"
    "read_chars (0x5C # 0x22 # xs) = cons_result 0x22 (read_chars xs)"
    "read_chars (0x5C # 0x5C # xs) = cons_result 0x5C (read_chars xs)"
    by (rule read_simple_escape; simp add: simple_escape_def)+
  show ?thesis
    unfolding quote_unit_def
    by (auto simp: esc read_unicode_escape read_verbatim simp del: read_chars.simps)
qed

lemma read_quote_code_points:
  "read_chars (quote_code_points t @ 0x22 # rest) = Some (t, rest)"
proof (induction t rule: quote_code_points.induct)
  case (1 u v us)
  show ?case
  proof (cases "is_leading_surrogate u \<and> is_trailing_surrogate v")
    case True
    then have u: "u \<noteq> 0x22" "u \<noteq> 0x5C" "\<not> u < 0x20"
      and v: "v \<noteq> 0x22" "v \<noteq> 0x5C" "\<not> v < 0x20"
      by (simp_all add: surrogate_verbatim)
    have "read_chars (u # v # quote_code_points us @ 0x22 # rest)
        = cons_result u (cons_result v (read_chars (quote_code_points us @ 0x22 # rest)))"
      by (simp only: read_verbatim [OF u] read_verbatim [OF v])
    with True 1 show ?thesis
      by (simp add: cons_result_def del: read_chars.simps)
  next
    case False
    then have "quote_code_points (u # v # us) = quote_unit u @ quote_code_points (v # us)"
      by auto
    with False 1 show ?thesis
      by (simp only: append_assoc read_quote_unit) (simp add: cons_result_def)
  qed
next
  case (2 u)
  have "read_chars (0x22 # rest) = Some ([], rest)" by simp
  then show ?case
    by (simp add: read_quote_unit cons_result_def del: read_chars.simps)
next
  case 3
  show ?case by simp
qed

lemma read_json_quote: "read_string (json_quote t @ rest) = Some (t, rest)"
  by (simp add: read_string_def json_quote_def read_quote_code_points del: read_chars.simps)

lemma read_stringify_member:
  "read_member_object (json_stringify [(k, v)]) = Some (k, v)"
proof -
  have "json_stringify [(k, v)] = 0x7B # (json_quote k @ 0x3A # (json_quote v @ [0x7D]))"
    by (simp add: json_stringify_def member_string_def ascii_def)
  then show ?thesis
    by (simp add: read_member_object_def read_json_quote del: read_chars.simps)
qed

section \<open>Rendering a success response\<close>

text \<open>
  C1. A response without an \<open>error\<close> property whose three sections are objects carrying
  their leaves as strings (the confidence as a string or a number) makes the client
  assign to the panel the heading, then the three section headers with the five values
  \<open>entities\<close>, \<open>relationships\<close>, \<open>sentiment\<close>, \<open>confidence\<close>, \<open>summary\<close> in this
  order, each value verbatim.
\<close>

theorem success_renders_fields_in_order:
  assumes "map_of kvs ''error'' = None"
    and "map_of kvs ''entity_extraction'' = Some (JObj ee)"
    and "map_of kvs ''sentiment_analysis'' = Some (JObj sa)"
    and "map_of kvs ''summarization'' = Some (JObj sm)"
    and "map_of ee ''entities'' = Some (JStr entities)"
    and "map_of ee ''relationships'' = Some (JStr relationships)"
    and "map_of sa ''sentiment'' = Some (JStr sentiment)"
    and "map_of sa ''confidence'' = Some (JStr confidence)
         \<or> map_of sa ''confidence'' = Some (JNum confidence)"
    and "map_of sm ''summary'' = Some (JStr summary)"
  shows "settle eng (Decoded (JObj kvs)) =
      ''<h3>Analysis Results:</h3>''
      @ ''<h4>Entity Extraction:</h4>''
      @ ''<p>Entities: '' @ entities @ ''</p>''
      @ ''<p>Relationships: '' @ relationships @ ''</p>''
      @ ''<h4>Sentiment Analysis:</h4>''
      @ ''<p>Sentiment: '' @ sentiment @ ''</p>''
      @ ''<p>Confidence: '' @ confidence @ ''</p>''
      @ ''<h4>Summarization:</h4>''
      @ ''<p>Summary: '' @ summary @ ''</p>''
    \<and> in_order [''<h4>Entity Extraction:</h4>'', entities, relationships,
                ''<h4>Sentiment Analysis:</h4>'', sentiment, confidence,
                ''<h4>Summarization:</h4>'', summary]
         (settle eng (Decoded (JObj kvs)))"
proof -
  have c: "to_string (map_of sa ''confidence'') = Inr confidence"
    using assms(8) by auto
  have eq: "settle eng (Decoded (JObj kvs)) =
      ''<h3>Analysis Results:</h3>''
      @ ''<h4>Entity Extraction:</h4>''
      @ ''<p>Entities: '' @ entities @ ''</p>''
      @ ''<p>Relationships: '' @ relationships @ ''</p>''
      @ ''<h4>Sentiment Analysis:</h4>''
      @ ''<p>Sentiment: '' @ sentiment @ ''</p>''
      @ ''<p>Confidence: '' @ confidence @ ''</p>''
      @ ''<h4>Summarization:</h4>''
      @ ''<p>Summary: '' @ summary @ ''</p>''"
    by (rule sections_fragment [OF _ assms(2) assms(3) assms(4) _ _ _ c])
       (simp_all add: assms)
  show ?thesis
    unfolding eq by (rule conjI [OF refl fragment_in_order])
qed

theorem success_renders_fields_in_order_witness:
  "settle v8 (Decoded (JObj apple)) =
     ''<h3>Analysis Results:</h3><h4>Entity Extraction:</h4><p>Entities: Apple</p><p>Relationships: none</p><h4>Sentiment Analysis:</h4><p>Sentiment: positive</p><p>Confidence: 0.92</p><h4>Summarization:</h4><p>Summary: Apple profits rose.</p>''
   \<and> in_order [''<h4>Entity Extraction:</h4>'', ''Apple'', ''none'',
               ''<h4>Sentiment Analysis:</h4>'', ''positive'', ''0.92'',
               ''<h4>Summarization:</h4>'', ''Apple profits rose.'']
        (settle v8 (Decoded (JObj apple)))"
proof -
  have hyps:
    "map_of apple ''error'' = None"
    "map_of apple ''entity_extraction''
       = Some (JObj [(''entities'', JStr ''Apple''), (''relationships'', JStr ''none'')])"
    "map_of apple ''sentiment_analysis''
       = Some (JObj [(''sentiment'', JStr ''positive''), (''confidence'', JStr ''0.92'')])"
    "map_of apple ''summarization'' = Some (JObj [(''summary'', JStr ''Apple profits rose.'')])"
    "map_of [(''entities'', JStr ''Apple''), (''relationships'', JStr ''none'')] ''entities''
       = Some (JStr ''Apple'')"
    "map_of [(''entities'', JStr ''Apple''), (''relationships'', JStr ''none'')] ''relationships''
       = Some (JStr ''none'')"
    "map_of [(''sentiment'', JStr ''positive''), (''confidence'', JStr ''0.92'')] ''sentiment''
       = Some (JStr ''positive'')"
    "map_of [(''sentiment'', JStr ''positive''), (''confidence'', JStr ''0.92'')] ''confidence''
         = Some (JStr ''0.92'')
     \<or> map_of [(''sentiment'', JStr ''positive''), (''confidence'', JStr ''0.92'')] ''confidence''
         = Some (JNum ''0.92'')"
    "map_of [(''summary'', JStr ''Apple profits rose.'')] ''summary''
       = Some (JStr ''Apple profits rose.'')"
    by (simp_all add: apple_def)
  from success_renders_fields_in_order [OF hyps, of v8]
  show ?thesis by (clarsimp simp del: settle.simps)
qed

text \<open>
  C4. The handler validates nothing: when the response has no \<open>error\<close> property and its
  three sections are objects, every leaf is read and converted as it is, and the panel
  is the success fragment with the text \<open>undefined\<close> in the place of each missing leaf.
  The leaves that are present are any values that \<open>ToString\<close> converts, strings and
  numbers among them.
\<close>

theorem missing_leaf_renders_undefined:
  assumes "map_of kvs ''error'' = None"
    and "map_of kvs ''entity_extraction'' = Some (JObj ee)"
    and "map_of kvs ''sentiment_analysis'' = Some (JObj sa)"
    and "map_of kvs ''summarization'' = Some (JObj sm)"
    and "to_string (map_of ee ''entities'') = Inr s1"
    and "to_string (map_of ee ''relationships'') = Inr s2"
    and "to_string (map_of sa ''sentiment'') = Inr s3"
    and "to_string (map_of sa ''confidence'') = Inr s4"
    and "to_string (map_of sm ''summary'') = Inr s5"
  shows "settle eng (Decoded (JObj kvs)) =
      ''<h3>Analysis Results:</h3>''
      @ ''<h4>Entity Extraction:</h4>''
      @ ''<p>Entities: '' @ s1 @ ''</p>''
      @ ''<p>Relationships: '' @ s2 @ ''</p>''
      @ ''<h4>Sentiment Analysis:</h4>''
      @ ''<p>Sentiment: '' @ s3 @ ''</p>''
      @ ''<p>Confidence: '' @ s4 @ ''</p>''
      @ ''<h4>Summarization:</h4>''
      @ ''<p>Summary: '' @ s5 @ ''</p>''
    \<and> (map_of ee ''entities'' = None \<longrightarrow> s1 = ''undefined'')
    \<and> (map_of ee ''relationships'' = None \<longrightarrow> s2 = ''undefined'')
    \<and> (map_of sa ''sentiment'' = None \<longrightarrow> s3 = ''undefined'')
    \<and> (map_of sa ''confidence'' = None \<longrightarrow> s4 = ''undefined'')
    \<and> (map_of sm ''summary'' = None \<longrightarrow> s5 = ''undefined'')"
proof -
  have falsy: "\<not> to_boolean (map_of kvs ''error'')"
    using assms(1) by simp
  have "settle eng (Decoded (JObj kvs)) =
      ''<h3>Analysis Results:</h3>''
      @ ''<h4>Entity Extraction:</h4>''
      @ ''<p>Entities: '' @ s1 @ ''</p>''
      @ ''<p>Relationships: '' @ s2 @ ''</p>''
      @ ''<h4>Sentiment Analysis:</h4>''
      @ ''<p>Sentiment: '' @ s3 @ ''</p>''
      @ ''<p>Confidence: '' @ s4 @ ''</p>''
      @ ''<h4>Summarization:</h4>''
      @ ''<p>Summary: '' @ s5 @ ''</p>''"
    by (rule sections_fragment [OF falsy assms(2-9)])
  moreover have "map_of ee ''entities'' = None \<longrightarrow> s1 = ''undefined''"
    using assms(5) by auto
  moreover have "map_of ee ''relationships'' = None \<longrightarrow> s2 = ''undefined''"
    using assms(6) by auto
  moreover have "map_of sa ''sentiment'' = None \<longrightarrow> s3 = ''undefined''"
    using assms(7) by auto
  moreover have "map_of sa ''confidence'' = None \<longrightarrow> s4 = ''undefined''"
    using assms(8) by auto
  moreover have "map_of sm ''summary'' = None \<longrightarrow> s5 = ''undefined''"
    using assms(9) by auto
  ultimately show ?thesis by (intro conjI)
qed

theorem missing_leaf_renders_undefined_witness:
  "settle v8 (Decoded (JObj partial_response)) =
     ''<h3>Analysis Results:</h3><h4>Entity Extraction:</h4><p>Entities: undefined</p><p>Relationships: none</p><h4>Sentiment Analysis:</h4><p>Sentiment: positive</p><p>Confidence: undefined</p><h4>Summarization:</h4><p>Summary: undefined</p>''"
proof -
  have hyps:
    "map_of partial_response ''error'' = None"
    "map_of partial_response ''entity_extraction'' = Some (JObj [(''relationships'', JStr ''none'')])"
    "map_of partial_response ''sentiment_analysis'' = Some (JObj [(''sentiment'', JStr ''positive'')])"
    "map_of partial_response ''summarization'' = Some (JObj [])"
    "to_string (map_of [(''relationships'', JStr ''none'')] ''entities'') = Inr ''undefined''"
    "to_string (map_of [(''relationships'', JStr ''none'')] ''relationships'') = Inr ''none''"
    "to_string (map_of [(''sentiment'', JStr ''positive'')] ''sentiment'') = Inr ''positive''"
    "to_string (map_of [(''sentiment'', JStr ''positive'')] ''confidence'') = Inr ''undefined''"
    "to_string (map_of [] ''summary'') = Inr ''undefined''"
    by (simp_all add: partial_response_def)
  from missing_leaf_renders_undefined [OF hyps, of v8]
  show ?thesis by (clarsimp simp del: settle.simps)
qed

section \<open>Rendering an error response\<close>

text \<open>
  C2, as amended. When the \<open>error\<close> property is a non-empty string, the panel is the
  heading followed by that string in a paragraph, whatever else the response holds: it
  contains the error string, and it contains one of the five field labels only where the
  error string itself does.
\<close>

theorem error_string_renders_error_only:
  assumes "map_of kvs ''error'' = Some (JStr e)" and "e \<noteq> []"
  shows "settle eng (Decoded (JObj kvs)) = ''<h3>Analysis Results:</h3>'' @ ''<p>'' @ e @ ''</p>''
    \<and> sublist e (settle eng (Decoded (JObj kvs)))
    \<and> (\<forall>l \<in> set field_labels. sublist l (settle eng (Decoded (JObj kvs))) \<longrightarrow> sublist l e)"
proof -
  have truthy: "to_boolean (map_of kvs ''error'')"
    using assms by simp
  have eq: "settle eng (Decoded (JObj kvs)) = ''<h3>Analysis Results:</h3><p>'' @ e @ ''</p>''"
    using assms(1) by (simp add: then_data_truthy [OF truthy])
  have "sublist e (''<h3>Analysis Results:</h3><p>'' @ e @ ''</p>'')"
    by (rule sublist_appendI)
  moreover have "\<forall>l \<in> set field_labels.
      sublist l (''<h3>Analysis Results:</h3><p>'' @ e @ ''</p>'') \<longrightarrow> sublist l e"
    using label_only_from_error by blast
  ultimately show ?thesis
    unfolding eq by simp
qed

theorem error_string_renders_error_only_witness:
  "settle v8 (Decoded (JObj [(''error'', JStr ''No document provided'')]))
     = ''<h3>Analysis Results:</h3><p>No document provided</p>''"
proof -
  have hyps:
    "map_of [(''error'', JStr ''No document provided'')] ''error''
       = Some (JStr ''No document provided'')"
    "''No document provided'' \<noteq> []"
    by simp_all
  from error_string_renders_error_only [OF hyps, of v8]
  show ?thesis by (clarsimp simp del: settle.simps)
qed

text \<open>
  C2 as stated fails for an \<open>error\<close> property that is present and empty: the response
  of the example with \<open>error: ""\<close> added is rendered with its labels and values. And a
  label is in the panel when the error string brings it.
\<close>

theorem empty_error_renders_sections_counterexample:
  "map_of ((''error'', JStr []) # apple) ''error'' = Some (JStr [])
   \<and> sublist ''Entities'' (settle v8 (Decoded (JObj ((''error'', JStr []) # apple))))
   \<and> sublist ''Apple'' (settle v8 (Decoded (JObj ((''error'', JStr []) # apple))))
   \<and> sublist ''Summary'' (settle v8 (Decoded (JObj [(''error'', JStr ''Summary unavailable'')])))"
proof -
  have "settle v8 (Decoded (JObj ((''error'', JStr []) # apple))) =
      ''<h3>Analysis Results:</h3><h4>Entity Extraction:</h4><p>Entities: Apple</p><p>Relationships: none</p><h4>Sentiment Analysis:</h4><p>Sentiment: positive</p><p>Confidence: 0.92</p><h4>Summarization:</h4><p>Summary: Apple profits rose.</p>''"
    by (simp add: apple_def then_data_falsy success_branch_def hole_def ev_bind_def ev_ret_def ev_lift_def)
  moreover have "settle v8 (Decoded (JObj [(''error'', JStr ''Summary unavailable'')])) =
      ''<h3>Analysis Results:</h3><p>Summary unavailable</p>''"
    by (simp add: then_data_truthy)
  ultimately show ?thesis
    by (simp add: sublist_Cons_right)
qed

text \<open>
  C3, as amended. When the \<open>error\<close> property is present and truthy, the handler reads
  \<open>error\<close> twice (the test and the template) and no other property, so none of the
  three sections; when the value converts to a string, a string error among them, the
  panel is the heading followed by that string in a paragraph.
\<close>

theorem truthy_error_reads_no_section:
  assumes "map_of kvs ''error'' = Some v" and "to_boolean (Some v)"
  shows "fst (then_data (JObj kvs)) = [P_error, P_error]
    \<and> P_entity_extraction \<notin> set (fst (then_data (JObj kvs)))
    \<and> P_sentiment_analysis \<notin> set (fst (then_data (JObj kvs)))
    \<and> P_summarization \<notin> set (fst (then_data (JObj kvs)))
    \<and> (\<forall>s. to_string (Some v) = Inr s \<longrightarrow>
          settle eng (Decoded (JObj kvs)) = ''<h3>Analysis Results:</h3>'' @ ''<p>'' @ s @ ''</p>'')"
proof -
  have truthy: "to_boolean (map_of kvs ''error'')"
    using assms by simp
  show ?thesis
    using assms(1) by (simp add: then_data_truthy [OF truthy])
qed

theorem truthy_error_reads_no_section_witness:
  "fst (then_data (JObj ((''error'', JStr ''No document provided'') # apple))) = [P_error, P_error]
   \<and> settle v8 (Decoded (JObj ((''error'', JStr ''No document provided'') # apple)))
       = ''<h3>Analysis Results:</h3><p>No document provided</p>''"
proof -
  have hyps:
    "map_of ((''error'', JStr ''No document provided'') # apple) ''error''
       = Some (JStr ''No document provided'')"
    "to_boolean (Some (JStr ''No document provided''))"
    by simp_all
  from truthy_error_reads_no_section [OF hyps, of v8]
  show ?thesis by (clarsimp simp del: settle.simps)
qed

text \<open>
  C3 as stated fails for an \<open>error\<close> property that is present and empty: on
  \<open>{error: ""}\<close> the handler goes on to read \<open>entity_extraction\<close>.
\<close>

theorem empty_error_reads_section_counterexample:
  "map_of [(''error'', JStr [])] ''error'' = Some (JStr [])
   \<and> fst (then_data (JObj [(''error'', JStr [])])) = [P_error, P_entity_extraction]
   \<and> P_entity_extraction \<in> set (fst (then_data (JObj [(''error'', JStr [])])))"
  by (simp add: then_data_def success_branch_def hole_def ev_bind_def ev_ret_def ev_lift_def)



section \<open>A missing section\<close>

text \<open>
  C9. When the response has no \<open>error\<close> property and one of the three sections is
  missing, the handler throws before it assigns anything, and the \<open>catch\<close> handler
  puts \<open>Error:\<close> and the exception into the panel. With the sections before the
  missing one well formed, the exception is the \<open>TypeError\<close> of reading the first leaf
  of the missing section from \<open>undefined\<close>.
\<close>

theorem missing_section_renders_exception:
  assumes "map_of kvs ''error'' = None"
    and "map_of kvs ''entity_extraction'' = None
         \<or> map_of kvs ''sentiment_analysis'' = None
         \<or> map_of kvs ''summarization'' = None"
  shows "\<exists>e. snd (then_data (JObj kvs)) = Inl e
    \<and> settle eng (Decoded (JObj kvs)) = ''<p>Error: '' @ error_to_string eng e @ ''</p>''
    \<and> (map_of kvs ''entity_extraction'' = None \<longrightarrow> e = TypeError_read Undefined P_entities)
    \<and> (\<forall>ee. map_of kvs ''entity_extraction'' = Some (JObj ee)
           \<and> \<not> isl (to_string (map_of ee ''entities''))
           \<and> \<not> isl (to_string (map_of ee ''relationships''))
           \<and> map_of kvs ''sentiment_analysis'' = None
          \<longrightarrow> e = TypeError_read Undefined P_sentiment)
    \<and> (\<forall>ee sa. map_of kvs ''entity_extraction'' = Some (JObj ee)
           \<and> \<not> isl (to_string (map_of ee ''entities''))
           \<and> \<not> isl (to_string (map_of ee ''relationships''))
           \<and> map_of kvs ''sentiment_analysis'' = Some (JObj sa)
           \<and> \<not> isl (to_string (map_of sa ''sentiment''))
           \<and> \<not> isl (to_string (map_of sa ''confidence''))
           \<and> map_of kvs ''summarization'' = None
          \<longrightarrow> e = TypeError_read Undefined P_summary)"
proof -
  have falsy: "\<not> to_boolean (map_of kvs ''error'')"
    using assms(1) by simp
  note td = then_data_falsy [OF falsy]
  let ?r = "snd (success_branch ''<h3>Analysis Results:</h3>'' (JObj kvs))"
  have throws: "\<exists>e. ?r = Inl e"
    using assms(2)
    by (auto simp: success_branch_cases hole_section_missing split: sum.splits)
  then obtain e where e: "?r = Inl e" ..
  have 1: "map_of kvs ''entity_extraction'' = None \<longrightarrow> e = TypeError_read Undefined P_entities"
    using e by (auto simp: success_branch_cases hole_section_missing)
  have 2: "\<forall>ee. map_of kvs ''entity_extraction'' = Some (JObj ee)
           \<and> \<not> isl (to_string (map_of ee ''entities''))
           \<and> \<not> isl (to_string (map_of ee ''relationships''))
           \<and> map_of kvs ''sentiment_analysis'' = None
          \<longrightarrow> e = TypeError_read Undefined P_sentiment"
    using e
    by (auto simp: success_branch_cases hole_section_missing hole_section_leaf
             split: sum.splits)
  have 3: "\<forall>ee sa. map_of kvs ''entity_extraction'' = Some (JObj ee)
           \<and> \<not> isl (to_string (map_of ee ''entities''))
           \<and> \<not> isl (to_string (map_of ee ''relationships''))
           \<and> map_of kvs ''sentiment_analysis'' = Some (JObj sa)
           \<and> \<not> isl (to_string (map_of sa ''sentiment''))
           \<and> \<not> isl (to_string (map_of sa ''confidence''))
           \<and> map_of kvs ''summarization'' = None
          \<longrightarrow> e = TypeError_read Undefined P_summary"
    using e
    by (auto simp: success_branch_cases hole_section_missing hole_section_leaf
             split: sum.splits)
  have thrown: "snd (then_data (JObj kvs)) = Inl e"
    using e by (simp add: td)
  have shown: "settle eng (Decoded (JObj kvs)) = ''<p>Error: '' @ error_to_string eng e @ ''</p>''"
    using e by (simp add: td catch_error_def)
  show ?thesis
    by (rule exI [of _ e]) (intro conjI thrown shown 1 2 3)
qed

theorem missing_section_renders_exception_witness:
  "settle v8 (Decoded (JObj no_summarization)) =
     ''<p>Error: TypeError: Cannot read properties of undefined (reading ''
     @ [CHR 0x27] @ ''summary'' @ [CHR 0x27] @ '')</p>''"
proof -
  have hyps:
    "map_of no_summarization ''error'' = None"
    "map_of no_summarization ''entity_extraction'' = None
     \<or> map_of no_summarization ''sentiment_analysis'' = None
     \<or> map_of no_summarization ''summarization'' = None"
    by (simp_all add: no_summarization_def)
  from missing_section_renders_exception [OF hyps, of v8]
  obtain e where shown: "settle v8 (Decoded (JObj no_summarization))
        = ''<p>Error: '' @ error_to_string v8 e @ ''</p>''"
    and which: "\<forall>ee sa. map_of no_summarization ''entity_extraction'' = Some (JObj ee)
           \<and> \<not> isl (to_string (map_of ee ''entities''))
           \<and> \<not> isl (to_string (map_of ee ''relationships''))
           \<and> map_of no_summarization ''sentiment_analysis'' = Some (JObj sa)
           \<and> \<not> isl (to_string (map_of sa ''sentiment''))
           \<and> \<not> isl (to_string (map_of sa ''confidence''))
           \<and> map_of no_summarization ''summarization'' = None
          \<longrightarrow> e = TypeError_read Undefined P_summary"
    by blast
  from which have "e = TypeError_read Undefined P_summary"
    by (simp add: no_summarization_def)
  with shown show ?thesis
    by (simp add: v8_def error_prototype_toString_def del: settle.simps)
qed

section \<open>The request a click sends\<close>

text \<open>
  C5. A click sends exactly one request, whatever the field holds, the empty string
  included: a \<open>POST\<close> to \<open>/analyze\<close> with the header \<open>Content-Type: application/json\<close>
  and, as its body, \<open>JSON.stringify\<close> of the object whose one property \<open>document\<close> is
  the text of the field. Nothing is checked before it is sent. The body is the JSON
  text of that object: a JSON reader gets from it the name \<open>document\<close> and exactly the
  text of the field, for every text. For the empty text the body is
  \<open>{"document":""}\<close>; in a text with a double quote, a backslash, a line feed, a
  control character, a surrogate pair and a lone surrogate, all but the pair are
  escaped.
\<close>

theorem click_issues_one_post:
  \<open>sent (step eng pg Click) =
     sent pg @ [\<lparr> req_method = ''POST'',
                  req_url = ''/analyze'',
                  req_headers = [(''Content-Type'', ''application/json'')],
                  req_body = json_stringify [(ascii ''document'', document_value pg)] \<rparr>]
   \<and> read_member_object (json_stringify [(ascii ''document'', document_value pg)])
       = Some (ascii ''document'', document_value pg)
   \<and> json_stringify [(ascii ''document'', [])] = ascii ''{"document":""}''
   \<and> json_stringify
         [(ascii ''document'', ascii ''say "hi"'' @ [0x5C, 0x0A, 0x01, 0xD83D, 0xDE00, 0xD800])]
       = ascii ''{"document":"say '' @ [0x5C] @ ascii ''"hi'' @ [0x5C] @ ascii ''"''
         @ [0x5C, 0x5C] @ [0x5C] @ ascii ''n'' @ [0x5C] @ ascii ''u0001''
         @ [0xD83D, 0xDE00] @ [0x5C] @ ascii ''ud800"}''\<close>
proof -
  have one: "sent (step eng pg Click) =
     sent pg @ [\<lparr> req_method = ''POST'',
                  req_url = ''/analyze'',
                  req_headers = [(''Content-Type'', ''application/json'')],
                  req_body = json_stringify [(ascii ''document'', document_value pg)] \<rparr>]"
    by (simp add: fetch_analyze_def)
  have empty: \<open>json_stringify [(ascii ''document'', [])] = ascii ''{"document":""}''\<close>
    by (simp add: json_stringify_def member_string_def json_quote_def ascii_def quote_unit_def
          is_leading_surrogate_def is_trailing_surrogate_def)
  have escaped: \<open>json_stringify
         [(ascii ''document'', ascii ''say "hi"'' @ [0x5C, 0x0A, 0x01, 0xD83D, 0xDE00, 0xD800])]
       = ascii ''{"document":"say '' @ [0x5C] @ ascii ''"hi'' @ [0x5C] @ ascii ''"''
         @ [0x5C, 0x5C] @ [0x5C] @ ascii ''n'' @ [0x5C] @ ascii ''u0001''
         @ [0xD83D, 0xDE00] @ [0x5C] @ ascii ''ud800"}''\<close>
    by (simp add: json_stringify_def member_string_def json_quote_def ascii_def quote_unit_def
          is_leading_surrogate_def is_trailing_surrogate_def unicode_escape_def hex_digit_def)
  show ?thesis
    by (intro conjI one read_stringify_member empty escaped)
qed

section \<open>Completions\<close>

text \<open>
  C6. When a request in flight ends with \<open>fetch\<close> rejecting (a network error) or with
  \<open>response.json()\<close> rejecting (a body that is not JSON), the panel is assigned
  \<open>Error:\<close> and the string form of the rejection in a paragraph, whatever it held
  before.
\<close>

theorem transport_failure_renders_error:
  assumes "k \<in> set (in_flight pg)"
    and "out = Fetch_rejected e \<or> out = Json_rejected e"
  shows "results_html (step eng pg (Settle k out)) = ''<p>Error: '' @ error_to_string eng e @ ''</p>''
    \<and> prefix ''<p>Error: '' (results_html (step eng pg (Settle k out)))
    \<and> sublist (error_to_string eng e) (results_html (step eng pg (Settle k out)))"
proof -
  have eq: "results_html (step eng pg (Settle k out))
              = ''<p>Error: '' @ error_to_string eng e @ ''</p>''"
    using assms by (auto simp: catch_error_def)
  have "prefix ''<p>Error: '' (''<p>Error: '' @ error_to_string eng e @ ''</p>'')"
    by simp
  moreover have "sublist (error_to_string eng e) (''<p>Error: '' @ error_to_string eng e @ ''</p>'')"
    by (rule sublist_appendI)
  ultimately show ?thesis
    unfolding eq by (intro conjI refl)
qed

theorem transport_failure_renders_error_witness:
  "results_html (run v8 page0 [Click, Settle 0 (Fetch_rejected failed_to_fetch)])
     = ''<p>Error: TypeError: Failed to fetch</p>''"
proof -
  have hyps:
    "0 \<in> set (in_flight (step v8 page0 Click))"
    "Fetch_rejected failed_to_fetch = Fetch_rejected failed_to_fetch
     \<or> Fetch_rejected failed_to_fetch = Json_rejected failed_to_fetch"
    by (simp_all add: page0_def)
  from transport_failure_renders_error [OF hyps, of v8]
  have "results_html (step v8 (step v8 page0 Click) (Settle 0 (Fetch_rejected failed_to_fetch)))
        = ''<p>Error: '' @ error_to_string v8 failed_to_fetch @ ''</p>''"
    by blast
  then show ?thesis
    by (simp add: failed_to_fetch_def error_prototype_toString_def del: step.simps)
qed

text \<open>
  C7. The panel holds what the request that settled last rendered. Every completion of
  a request in flight overwrites the one results element and checks nothing about the
  request it belongs to: after any history of events, a request still in flight that
  settles sets the panel to its own rendering; so when two requests are sent and the
  second settles before the first, the panel ends with the rendering of the first,
  older, request.
\<close>

theorem last_completion_wins:
  "(k \<in> set (in_flight (run eng pg evs)) \<longrightarrow>
      results_html (run eng pg (evs @ [Settle k out])) = settle eng out)
   \<and> results_html (run eng pg [Click, Click,
          Settle (Suc (length (sent pg))) out2, Settle (length (sent pg)) out1])
       = settle eng out1"
  by (simp add: run_append Let_def)

theorem last_completion_wins_witness:
  "results_html (run v8 page0
      [Edit (ascii ''first''), Click, Edit (ascii ''second''), Click,
       Settle 1 (Decoded (JObj apple)),
       Settle 0 (Decoded (JObj [(''error'', JStr ''No document provided'')]))])
     = ''<h3>Analysis Results:</h3><p>No document provided</p>''"
proof -
  have hyp: "0 \<in> set (in_flight (run v8 page0
      [Edit (ascii ''first''), Click, Edit (ascii ''second''), Click, Settle 1 (Decoded (JObj apple))]))"
    by (simp add: page0_def Let_def)
  from last_completion_wins [of 0 v8 page0
      "[Edit (ascii ''first''), Click, Edit (ascii ''second''), Click, Settle 1 (Decoded (JObj apple))]"
      "Decoded (JObj [(''error'', JStr ''No document provided'')])"] hyp
  have "results_html (run v8 page0
      ([Edit (ascii ''first''), Click, Edit (ascii ''second''), Click, Settle 1 (Decoded (JObj apple))]
       @ [Settle 0 (Decoded (JObj [(''error'', JStr ''No document provided'')]))]))
     = settle v8 (Decoded (JObj [(''error'', JStr ''No document provided'')]))"
    by blast
  then show ?thesis
    by (simp add: then_data_truthy del: run.simps step.simps)
qed

text \<open>
  C10. What a completion assigns to the panel is a function of how the request ended,
  and of nothing else on the page: two pages that differ in the text of the field, in
  what the panel holds and in the requests sent and in flight get the same panel from
  the same outcome.
\<close>

theorem rendering_is_deterministic:
  assumes "k \<in> set (in_flight pg)" and "k' \<in> set (in_flight pg')"
  shows "results_html (step eng pg (Settle k out)) = results_html (step eng pg' (Settle k' out))
    \<and> results_html (step eng pg (Settle k out)) = settle eng out"
  using assms by simp

theorem rendering_is_deterministic_witness:
  "results_html (step v8 (step v8 page0 Click) (Settle 0 (Decoded (JObj apple))))
     = results_html (step v8
         (run v8 page0 [Edit (ascii ''text''), Click, Settle 0 (Fetch_rejected failed_to_fetch), Click])
         (Settle 1 (Decoded (JObj apple))))
   \<and> step v8 page0 Click
     \<noteq> run v8 page0 [Edit (ascii ''text''), Click, Settle 0 (Fetch_rejected failed_to_fetch), Click]"
proof -
  have hyps:
    "0 \<in> set (in_flight (step v8 page0 Click))"
    "1 \<in> set (in_flight
        (run v8 page0 [Edit (ascii ''text''), Click, Settle 0 (Fetch_rejected failed_to_fetch), Click]))"
    by (simp_all add: page0_def Let_def)
  have "document_value (step v8 page0 Click)
      \<noteq> document_value
          (run v8 page0 [Edit (ascii ''text''), Click, Settle 0 (Fetch_rejected failed_to_fetch), Click])"
    by (simp add: page0_def Let_def ascii_def)
  then have "step v8 page0 Click
     \<noteq> run v8 page0 [Edit (ascii ''text''), Click, Settle 0 (Fetch_rejected failed_to_fetch), Click]"
    by metis
  with rendering_is_deterministic [OF hyps, of v8 "Decoded (JObj apple)"]
  show ?thesis by blast
qed

end
